theory Spec2Isabelle
  imports Complex_Main "HOL-Library.Word"
begin

section \<open>Python strings\<close>

text \<open>
  A Python \<open>str\<close> is a sequence of Unicode code points, so it is modelled as a list of
  natural numbers; \<open>bytes\<close> are lists of 8-bit words.  String literals of the source that
  are plain ASCII are written with \<open>ascii\<close>; other code points are written as numbers.
\<close>

type_synonym pystr = "nat list"
type_synonym byte = "8 word"

definition ascii :: "string \<Rightarrow> pystr" where
  "ascii s = map of_char s"

text \<open>\<open>str.isspace\<close> on one code point: the code points Python treats as whitespace.\<close>

definition py_isspace :: "nat \<Rightarrow> bool" where
  "py_isspace c \<longleftrightarrow>
     (9 \<le> c \<and> c \<le> 13) \<or> (28 \<le> c \<and> c \<le> 32) \<or> c = 133 \<or> c = 160 \<or> c = 5760 \<or>
     (8192 \<le> c \<and> c \<le> 8202) \<or> c = 8232 \<or> c = 8233 \<or> c = 8239 \<or> c = 8287 \<or> c = 12288"

text \<open>\<open>s.strip()\<close>: whitespace removed at the left end, then at the right end.\<close>

definition lstrip :: "pystr \<Rightarrow> pystr" where
  "lstrip s = dropWhile py_isspace s"

definition rstrip :: "pystr \<Rightarrow> pystr" where
  "rstrip s = rev (dropWhile py_isspace (rev s))"

definition strip :: "pystr \<Rightarrow> pystr" where
  "strip s = rstrip (lstrip s)"

text \<open>\<open>sub in s\<close>: \<open>sub\<close> occurs in \<open>s\<close> as a contiguous run.\<close>

fun py_in :: "pystr \<Rightarrow> pystr \<Rightarrow> bool" where
  "py_in sub [] = (sub = [])"
| "py_in sub (c # cs) = (take (length sub) (c # cs) = sub \<or> py_in sub cs)"

text \<open>
  \<open>s.lower()\<close>.  On ASCII, \<open>A\<close>..\<open>Z\<close> go to \<open>a\<close>..\<open>z\<close> and everything else is kept.
  Outside ASCII Python follows the Unicode case-mapping tables, which are not part of the
  program; they are the parameter \<open>tbl\<close>, which gives the lower-case expansion of the code
  point at a position of a string (the position is passed because the mapping of capital
  sigma depends on its neighbours).
\<close>

definition ascii_lower :: "nat \<Rightarrow> nat" where
  "ascii_lower c = (if 65 \<le> c \<and> c \<le> 90 then c + 32 else c)"

fun lower_from :: "(pystr \<Rightarrow> nat \<Rightarrow> pystr) \<Rightarrow> pystr \<Rightarrow> nat \<Rightarrow> pystr \<Rightarrow> pystr" where
  "lower_from tbl s i [] = []"
| "lower_from tbl s i (c # cs) =
     (if c < 128 then [ascii_lower c] else tbl s i) @ lower_from tbl s (Suc i) cs"

definition py_lower :: "(pystr \<Rightarrow> nat \<Rightarrow> pystr) \<Rightarrow> pystr \<Rightarrow> pystr" where
  "py_lower tbl s = lower_from tbl s 0 s"

section \<open>Decoding an upload\<close>

text \<open>
  \<open>bytes_content.decode("utf-8")\<close> in strict mode: \<open>None\<close> stands for the
  \<open>UnicodeDecodeError\<close>.  Over-long forms, surrogates and values above \<open>0x10FFFF\<close>
  are rejected, as the codec does, through the admissible range of the second byte.
\<close>

definition is_cont :: "byte \<Rightarrow> bool" where
  "is_cont b \<longleftrightarrow> 0x80 \<le> b \<and> b \<le> 0xBF"

definition cont_bits :: "byte \<Rightarrow> nat" where
  "cont_bits b = unat b mod 64"

definition second_ok :: "byte \<Rightarrow> byte \<Rightarrow> bool" where
  "second_ok b0 b1 \<longleftrightarrow>
     (if b0 = 0xE0 then 0xA0 \<le> b1 \<and> b1 \<le> 0xBF
      else if b0 = 0xED then 0x80 \<le> b1 \<and> b1 \<le> 0x9F
      else if b0 = 0xF0 then 0x90 \<le> b1 \<and> b1 \<le> 0xBF
      else if b0 = 0xF4 then 0x80 \<le> b1 \<and> b1 \<le> 0x8F
      else is_cont b1)"

fun utf8_decode :: "byte list \<Rightarrow> pystr option" where
  "utf8_decode [] = Some []"
| "utf8_decode (b0 # bs) =
     (if b0 \<le> 0x7F then map_option ((#) (unat b0)) (utf8_decode bs)
      else if 0xC2 \<le> b0 \<and> b0 \<le> 0xDF then
        (case bs of
           b1 # r \<Rightarrow>
             if is_cont b1
             then map_option ((#) ((unat b0 mod 32) * 64 + cont_bits b1)) (utf8_decode r)
             else None
         | _ \<Rightarrow> None)
      else if 0xE0 \<le> b0 \<and> b0 \<le> 0xEF then
        (case bs of
           b1 # b2 # r \<Rightarrow>
             if second_ok b0 b1 \<and> is_cont b2
             then map_option
                    ((#) ((unat b0 mod 16) * 4096 + cont_bits b1 * 64 + cont_bits b2))
                    (utf8_decode r)
             else None
         | _ \<Rightarrow> None)
      else if 0xF0 \<le> b0 \<and> b0 \<le> 0xF4 then
        (case bs of
           b1 # b2 # b3 # r \<Rightarrow>
             if second_ok b0 b1 \<and> is_cont b2 \<and> is_cont b3
             then map_option
                    ((#) ((unat b0 mod 8) * 262144 + cont_bits b1 * 4096 + cont_bits b2 * 64
                          + cont_bits b3))
                    (utf8_decode r)
             else None
         | _ \<Rightarrow> None)
      else None)"

section \<open>The input resolver\<close>

text \<open>Line 81: \<open>final_text = file_text if file_text.strip() else lab_text_input\<close>.\<close>

definition final_text :: "pystr \<Rightarrow> pystr \<Rightarrow> pystr" where
  "final_text file_text lab_text_input =
     (if strip file_text \<noteq> [] then file_text else lab_text_input)"

section \<open>Exceptions\<close>

text \<open>
  Something raised during a call is its class name and its message (\<open>str(e)\<close>).
  \<open>Exn\<close> is an instance of \<open>Exception\<close>, as the errors of the Gemini SDK are;
  \<open>BaseExn\<close> is a \<open>BaseException\<close> that is not an \<open>Exception\<close>
  (\<open>KeyboardInterrupt\<close>, \<open>SystemExit\<close>, \<open>GeneratorExit\<close>).
  The retry decorator is used without \<open>reraise=True\<close>, so when it gives up it raises its
  own \<open>RetryError\<close>, which wraps the \<open>Future\<close> of the last attempt; the number is the
  address \<open>id(...)\<close> of that \<open>Future\<close>.
\<close>

datatype exn = Exn pystr pystr | BaseExn pystr pystr | RetryError exn nat

text \<open>\<open>isinstance(e, Exception)\<close>; \<open>RetryError\<close> derives from \<open>Exception\<close>.\<close>

fun is_exception :: "exn \<Rightarrow> bool" where
  "is_exception (Exn c m) = True"
| "is_exception (BaseExn c m) = False"
| "is_exception (RetryError e a) = True"

fun class_name :: "exn \<Rightarrow> pystr" where
  "class_name (Exn c m) = c"
| "class_name (BaseExn c m) = c"
| "class_name (RetryError e a) = ascii ''RetryError''"

definition hex_digit :: "nat \<Rightarrow> nat" where
  "hex_digit d = (if d < 10 then 48 + d else 87 + d)"

text \<open>The digits of \<open>'%x' % n\<close>.\<close>

function hex :: "nat \<Rightarrow> pystr" where
  "hex n = (if n < 16 then [hex_digit n] else hex (n div 16) @ [hex_digit (n mod 16)])"
  by pat_completeness auto
termination
  by (relation "measure id") auto

declare hex.simps [simp del]

text \<open>
  \<open>Future.__repr__\<close> of a finished attempt that raised:
  \<open>'<%s at %#x state=%s raised %s>'\<close> with the class name of the exception, not its message.
\<close>

definition future_repr :: "nat \<Rightarrow> exn \<Rightarrow> pystr" where
  "future_repr a e =
     ascii ''<Future at 0x'' @ hex a @ ascii '' state=finished raised '' @ class_name e @ ascii ''>''"

text \<open>\<open>str(e)\<close>; for \<open>RetryError\<close> it is \<open>f"{self.__class__.__name__}[{self.last_attempt}]"\<close>.\<close>

fun str_exn :: "exn \<Rightarrow> pystr" where
  "str_exn (Exn c m) = m"
| "str_exn (BaseExn c m) = m"
| "str_exn (RetryError e a) = ascii ''RetryError['' @ future_repr a e @ ascii '']''"

section \<open>What a run of the script does\<close>

text \<open>
  Streamlit runs the script from the top on every interaction.  A run is modelled by the
  list of its effects in order: the elements it renders, the messages it shows, and its
  calls to the SDK and to \<open>sleep\<close>.  \<open>st.stop()\<close> ends the list, and so does
  an error that no handler of the script catches (\<open>Uncaught\<close>).
\<close>

datatype widget =
  PageConfig | Title | Markdown | FileUploader | TextArea pystr | Button | Spinner | SidebarInfo

datatype effect =
    Render widget
  | StError pystr
  | StWarning pystr
  | StSuccess pystr
  | StWrite pystr
  | Configure pystr
  | GenerateContent pystr
  | Sleep real
  | Uncaught exn

text \<open>
  The installed tenacity.  The script imports it and the repository pins no release;
  releases differ in \<open>wait_random_exponential\<close>: before 9.0 the wait is drawn by
  \<open>random.uniform(0, high)\<close>, from 9.0 on by \<open>random.uniform(self.min, high)\<close>.
\<close>

datatype release = Before_9 | From_9

text \<open>
  Everything a run reads from outside: the environment variable, whether the SDK could be
  initialised, the uploaded bytes, what the user typed into the text area (\<open>None\<close> when the
  area was left as pre-filled), whether the button was clicked, the outcome of the
  \<open>n\<close>-th call \<open>model.generate_content(prompt, ...).text\<close>, the random numbers in
  \<open>[0, 1)\<close> drawn for the waits, the address of the last attempt's \<open>Future\<close>, and
  the installed release of tenacity.
\<close>

record world =
  getenv_key :: "pystr option"
  init_error :: "exn option"
  uploaded_file :: "byte list option"
  typed :: "pystr option"
  clicked :: bool
  respond :: "pystr \<Rightarrow> nat \<Rightarrow> exn + pystr"
  random :: "nat \<Rightarrow> real"
  future_id :: nat
  tenacity :: release

section \<open>The retry wrapper\<close>

text \<open>
  \<open>wait_exponential.__call__\<close>:
  \<open>max(max(0, self.min), min(self.multiplier * self.exp_base ** (attempt_number - 1), self.max))\<close>.
\<close>

definition wait_exponential :: "real \<Rightarrow> real \<Rightarrow> real \<Rightarrow> real \<Rightarrow> nat \<Rightarrow> real" where
  "wait_exponential multiplier mx exp_base mn attempt_number =
     max (max 0 mn) (min (multiplier * exp_base ^ (attempt_number - 1)) mx)"

text \<open>\<open>random.uniform(a, b)\<close> is \<open>a + (b - a) * random()\<close>; \<open>u\<close> is the draw.\<close>

definition uniform :: "real \<Rightarrow> real \<Rightarrow> real \<Rightarrow> real" where
  "uniform a b u = a + (b - a) * u"

text \<open>
  \<open>wait_random_exponential(min, max).__call__\<close>:
  \<open>high = super().__call__(retry_state)\<close>, then \<open>random.uniform(0, high)\<close> before
  release 9.0 and \<open>random.uniform(self.min, high)\<close> from 9.0 on.
\<close>

definition draw_from :: "release \<Rightarrow> real \<Rightarrow> real" where
  "draw_from rel mn = (case rel of Before_9 \<Rightarrow> 0 | From_9 \<Rightarrow> mn)"

definition wait_random_exponential :: "release \<Rightarrow> real \<Rightarrow> real \<Rightarrow> nat \<Rightarrow> real \<Rightarrow> real" where
  "wait_random_exponential rel mn mx attempt_number u =
     uniform (draw_from rel mn) (wait_exponential 1 mx 2 mn attempt_number) u"

definition stop_after_attempt :: "nat \<Rightarrow> nat \<Rightarrow> bool" where
  "stop_after_attempt max_attempt_number attempt_number \<longleftrightarrow>
     attempt_number \<ge> max_attempt_number"

text \<open>
  The loop of \<open>@retry(wait=wait_random_exponential(min, max), stop=stop_after_attempt(k))\<close>
  from attempt \<open>attempt_number\<close> on.  \<open>fn\<close> is the decorated function: the outcome of one
  attempt and its effects.  The decorator names no \<open>retry\<close> condition, so the default
  \<open>retry_if_exception_type(Exception)\<close> applies: a result is returned at once, and so is
  anything raised that is not an \<open>Exception\<close>, which is raised again as it is
  (\<open>fut.result()\<close>).  An \<open>Exception\<close> is retried after the wait, unless the stop
  condition holds, in which case \<open>RetryError\<close> is raised.
\<close>

function retry_call ::
  "release \<Rightarrow> real \<Rightarrow> real \<Rightarrow> nat \<Rightarrow> (nat \<Rightarrow> (exn + pystr) \<times> effect list) \<Rightarrow> (nat \<Rightarrow> real) \<Rightarrow> nat
   \<Rightarrow> nat \<Rightarrow> (exn + pystr) \<times> effect list" where
  "retry_call rel mn mx k fn rnd addr attempt_number =
     (case fst (fn attempt_number) of
        Inr result \<Rightarrow> (Inr result, snd (fn attempt_number))
      | Inl e \<Rightarrow>
          if \<not> is_exception e then (Inl e, snd (fn attempt_number))
          else if stop_after_attempt k attempt_number
          then (Inl (RetryError e addr), snd (fn attempt_number))
          else (fst (retry_call rel mn mx k fn rnd addr (Suc attempt_number)),
                snd (fn attempt_number)
                @ [Sleep (wait_random_exponential rel mn mx attempt_number (rnd attempt_number))]
                @ snd (retry_call rel mn mx k fn rnd addr (Suc attempt_number))))"
  by pat_completeness auto
termination
  by (relation "measure (\<lambda>(rel, mn, mx, k, fn, rnd, addr, n). k - n)")
     (auto simp: stop_after_attempt_def)

declare retry_call.simps [simp del]

text \<open>
  The body of \<open>safe_generate\<close> (lines 36--40) at attempt \<open>n\<close>: one call of
  \<open>generate_content\<close>, and the stripped \<open>response.text\<close> if nothing was raised.
\<close>

definition generate_once ::
  "(pystr \<Rightarrow> nat \<Rightarrow> exn + pystr) \<Rightarrow> pystr \<Rightarrow> nat \<Rightarrow> (exn + pystr) \<times> effect list" where
  "generate_once resp prompt n =
     (case resp prompt n of
        Inl e \<Rightarrow> (Inl e, [GenerateContent prompt])
      | Inr text \<Rightarrow> (Inr (strip text), [GenerateContent prompt]))"

text \<open>
  Line 33: \<open>wait_random_exponential(min=12, max=60)\<close> and \<open>stop_after_attempt(4)\<close>;
  attempts count from 1.
\<close>

definition safe_generate :: "world \<Rightarrow> pystr \<Rightarrow> (exn + pystr) \<times> effect list" where
  "safe_generate w prompt =
     retry_call (tenacity w) 12 60 4 (generate_once (respond w) prompt) (random w)
       (future_id w) 1"

section \<open>The script\<close>

subsection \<open>Messages\<close>

definition missing_key_msg :: pystr where
  "missing_key_msg =
     [10060] @ ascii '' Please set a GOOGLE_API_KEY in a .env file or Streamlit secret.''"

definition init_failed_msg :: "exn \<Rightarrow> pystr" where
  "init_failed_msg e = [128531] @ ascii '' Could not initialise Gemini: '' @ str_exn e"

definition unreadable_msg :: pystr where
  "unreadable_msg =
     [128533] @ ascii '' I couldn't read that file. Please make sure it's plain text or CSV.''"

definition no_input_msg :: pystr where
  "no_input_msg =
     ascii ''Please upload a file or paste a lab result before clicking '' @ [128522]"

definition draft_msg :: pystr where
  "draft_msg = ascii ''Here'' @ [8217] @ ascii ''s my draft explanation:''"

definition quota_msg :: pystr where
  "quota_msg =
     [9888, 65039]
     @ ascii '' Free Gemini quota reached or too many requests. Please wait a bit and try again.''"

definition oops_msg :: "exn \<Rightarrow> pystr" where
  "oops_msg e = [128531] @ ascii '' Oops, something went wrong: '' @ str_exn e"

subsection \<open>Collecting the input (lines 56--81)\<close>

text \<open>
  Lines 62--69: the decoded upload, or the empty string with a warning when decoding
  raises, or the empty string when nothing was uploaded.
\<close>

definition file_upload :: "byte list option \<Rightarrow> pystr \<times> effect list" where
  "file_upload up =
     (case up of
        None \<Rightarrow> ([], [])
      | Some bytes_content \<Rightarrow>
          (case utf8_decode bytes_content of
             Some t \<Rightarrow> (t, [])
           | None \<Rightarrow> ([], [StWarning unreadable_msg])))"

definition file_text :: "world \<Rightarrow> pystr" where
  "file_text w = fst (file_upload (uploaded_file w))"

text \<open>
  \<open>st.text_area(..., value=file_text)\<close> returns what the user typed, or the pre-filled
  value when the user typed nothing.
\<close>

definition text_area :: "pystr option \<Rightarrow> pystr \<Rightarrow> pystr" where
  "text_area user_input value = (case user_input of None \<Rightarrow> value | Some t \<Rightarrow> t)"

definition lab_text_input :: "world \<Rightarrow> pystr" where
  "lab_text_input w = text_area (typed w) (file_text w)"

text \<open>The text that is submitted: \<open>final_text\<close> of line 81 in a given run.\<close>

definition resolved :: "world \<Rightarrow> pystr" where
  "resolved w = final_text (file_text w) (lab_text_input w)"

subsection \<open>The prompt (lines 90--97)\<close>

definition system_prompt :: pystr where
  "system_prompt =
     ascii ''You are a compassionate medical doctor AI assistant. ''
     @ ascii ''Explain lab results in simple terms. ''
     @ ascii ''You may suggest general medicine classes or lifestyle tips, ''
     @ ascii ''but do NOT give drug names or exact doses. ''
     @ ascii ''Always remind the reader to confirm with a licensed doctor.''"

text \<open>
  \<open>f"{system_prompt}\n\nHere is the lab result:\n{final_text}\n\nExplain and recommend."\<close>;
  the line feed is code point 10.
\<close>

definition full_prompt :: "pystr \<Rightarrow> pystr" where
  "full_prompt ft =
     system_prompt @ [10, 10] @ ascii ''Here is the lab result:'' @ [10] @ ft
     @ [10, 10] @ ascii ''Explain and recommend.''"

subsection \<open>The button (lines 84--108)\<close>

text \<open>
  Line 105: \<open>any(word in str(e).lower() for word in ["quota", "rate", "limit"])\<close>.
\<close>

definition rate_limited :: "(pystr \<Rightarrow> nat \<Rightarrow> pystr) \<Rightarrow> exn \<Rightarrow> bool" where
  "rate_limited tbl e \<longleftrightarrow>
     list_ex (\<lambda>word. py_in word (py_lower tbl (str_exn e)))
       [ascii ''quota'', ascii ''rate'', ascii ''limit'']"

text \<open>
  Lines 99--108: the call inside the spinner and what is shown after it.  The handler is
  \<open>except Exception\<close>, so an error that is not an \<open>Exception\<close> leaves the script.
\<close>

definition explain :: "(pystr \<Rightarrow> nat \<Rightarrow> pystr) \<Rightarrow> world \<Rightarrow> effect list" where
  "explain tbl w =
     Render Spinner # snd (safe_generate w (full_prompt (resolved w)))
     @ (case fst (safe_generate w (full_prompt (resolved w))) of
          Inr answer \<Rightarrow> [StSuccess draft_msg, StWrite answer]
        | Inl e \<Rightarrow>
            if \<not> is_exception e then [Uncaught e]
            else if rate_limited tbl e then [StError quota_msg] else [StError (oops_msg e)])"

text \<open>The call of line 101 raises something that line 104 does not catch.\<close>

definition escapes :: "world \<Rightarrow> bool" where
  "escapes w \<longleftrightarrow>
     (case fst (safe_generate w (full_prompt (resolved w))) of
        Inr answer \<Rightarrow> False
      | Inl e \<Rightarrow> \<not> is_exception e)"

subsection \<open>The whole run\<close>

text \<open>
  Lines 19--22 stop the run when the key is \<open>None\<close> or empty (\<open>not google_key\<close>);
  lines 25--30 stop it when the SDK cannot be initialised; lines 85--87 stop it when the
  button is clicked with nothing to send.  Otherwise the run ends with the side bar,
  unless an error left the script before.
\<close>

definition app :: "(pystr \<Rightarrow> nat \<Rightarrow> pystr) \<Rightarrow> world \<Rightarrow> effect list" where
  "app tbl w =
     (case getenv_key w of
        None \<Rightarrow> [StError missing_key_msg]
      | Some google_key \<Rightarrow>
          if google_key = [] then [StError missing_key_msg]
          else
            (case init_error w of
               Some e \<Rightarrow>
                 if is_exception e then [Configure google_key, StError (init_failed_msg e)]
                 else [Configure google_key, Uncaught e]
             | None \<Rightarrow>
                 [Configure google_key, Render PageConfig, Render Title, Render Markdown,
                  Render FileUploader]
                 @ snd (file_upload (uploaded_file w))
                 @ [Render (TextArea (file_text w)), Render Button]
                 @ (if clicked w
                    then (if strip (resolved w) = [] then [StWarning no_input_msg]
                          else explain tbl w
                               @ (if escapes w then [] else [Render SidebarInfo]))
                    else [Render SidebarInfo])))"

text \<open>The run gets as far as the button: the key is set and the SDK initialised.\<close>

definition serving :: "world \<Rightarrow> bool" where
  "serving w \<longleftrightarrow>
     (case getenv_key w of None \<Rightarrow> False | Some k \<Rightarrow> k \<noteq> []) \<and> init_error w = None"

section \<open>Reading a run\<close>

text \<open>The prompts sent to the model during a run, and the waits, in order.\<close>

fun prompts_sent :: "effect list \<Rightarrow> pystr list" where
  "prompts_sent [] = []"
| "prompts_sent (GenerateContent p # tr) = p # prompts_sent tr"
| "prompts_sent (x # tr) = prompts_sent tr"

fun sleeps :: "effect list \<Rightarrow> real list" where
  "sleeps [] = []"
| "sleeps (Sleep d # tr) = d # sleeps tr"
| "sleeps (x # tr) = sleeps tr"

text \<open>A string has leading or trailing whitespace.\<close>

definition edge_space :: "pystr \<Rightarrow> bool" where
  "edge_space s \<longleftrightarrow> s \<noteq> [] \<and> (py_isspace (hd s) \<or> py_isspace (last s))"

section \<open>Example runs\<close>

definition lab_example :: pystr where
  "lab_example = ascii ''Hemoglobin A1C: 8.2% (High)''"

text \<open>The error of the Gemini API on an exhausted quota (HTTP 429).\<close>

definition quota_exceeded :: exn where
  "quota_exceeded =
     Exn (ascii ''ResourceExhausted'')
         (ascii ''429 Resource has been exhausted (e.g. check quota).'')"

text \<open>Outcomes of the generation call, attempt by attempt.\<close>

definition always_fails :: "nat \<Rightarrow> exn + pystr" where
  "always_fails n = Inl quota_exceeded"

definition fourth_succeeds :: "nat \<Rightarrow> exn + pystr" where
  "fourth_succeeds n =
     (if n < 4 then Inl quota_exceeded else Inr (ascii ''Your A1C is elevated...''))"

text \<open>Control-C during the first call; a second call would have answered.\<close>

definition keyboard_interrupt :: exn where
  "keyboard_interrupt = BaseExn (ascii ''KeyboardInterrupt'') []"

definition interrupted_first :: "nat \<Rightarrow> exn + pystr" where
  "interrupted_first n =
     (if n = 1 then Inl keyboard_interrupt else Inr (ascii ''Your A1C is elevated...''))"

definition answers :: "nat \<Rightarrow> exn + pystr" where
  "answers n = Inr (ascii ''Your A1C is elevated...'')"

definition answers_padded :: "nat \<Rightarrow> exn + pystr" where
  "answers_padded n = Inr (ascii ''  Your A1C is elevated...'' @ [10])"

text \<open>
  A case table that leaves every code point outside ASCII as it is; the examples only
  lower-case ASCII text.
\<close>

definition plain_table :: "pystr \<Rightarrow> nat \<Rightarrow> pystr" where
  "plain_table s i = [s ! i]"

text \<open>
  A run with the key set and the button clicked, for a given upload, typed text and
  sequence of outcomes of the generation call, on tenacity 9.
\<close>

definition example_world ::
  "byte list option \<Rightarrow> pystr option \<Rightarrow> (nat \<Rightarrow> exn + pystr) \<Rightarrow> world" where
  "example_world up ty outcomes =
     \<lparr>getenv_key = Some (ascii ''secret''), init_error = None, uploaded_file = up,
      typed = ty, clicked = True, respond = (\<lambda>prompt. outcomes), random = (\<lambda>n. 1 / 2),
      future_id = 0x7f3a5c1d2e80, tenacity = From_9\<rparr>"

section \<open>Facts about \<open>strip\<close>\<close>

lemma rstrip_prefix: "\<exists>tl. s = rstrip s @ tl"
proof -
  have "rstrip s @ rev (takeWhile py_isspace (rev s))
        = rev (takeWhile py_isspace (rev s) @ dropWhile py_isspace (rev s))"
    by (simp only: rstrip_def rev_append)
  also have "\<dots> = s"
    by (simp only: takeWhile_dropWhile_id rev_rev_ident)
  finally have "s = rstrip s @ rev (takeWhile py_isspace (rev s))" by (rule sym)
  then show ?thesis ..
qed

lemma lstrip_hd: "lstrip s \<noteq> [] \<Longrightarrow> \<not> py_isspace (hd (lstrip s))"
  unfolding lstrip_def by (rule hd_dropWhile)

lemma rstrip_last: "rstrip s \<noteq> [] \<Longrightarrow> \<not> py_isspace (last (rstrip s))"
  unfolding rstrip_def by (simp add: last_rev hd_dropWhile)

lemma rstrip_hd: "rstrip s \<noteq> [] \<Longrightarrow> hd (rstrip s) = hd s"
proof -
  assume ne: "rstrip s \<noteq> []"
  obtain tl where "s = rstrip s @ tl" using rstrip_prefix by blast
  then have "hd s = hd (rstrip s @ tl)" by simp
  with ne show ?thesis by simp
qed

lemma strip_no_edge: "\<not> edge_space (strip s)"
proof (cases "strip s = []")
  case True
  then show ?thesis by (simp add: edge_space_def)
next
  case False
  then have r: "rstrip (lstrip s) \<noteq> []" by (simp add: strip_def)
  then have l: "lstrip s \<noteq> []" by (auto simp: rstrip_def)
  have "hd (strip s) = hd (lstrip s)" using r by (simp add: strip_def rstrip_hd)
  then have "\<not> py_isspace (hd (strip s))" using l by (simp add: lstrip_hd)
  moreover have "\<not> py_isspace (last (strip s))" using r by (simp add: strip_def rstrip_last)
  ultimately show ?thesis by (simp add: edge_space_def)
qed

lemma strip_changes: "edge_space t \<Longrightarrow> strip t \<noteq> t"
  using strip_no_edge [of t] by auto

lemma strip_Nil: "strip [] = []"
  by (simp add: strip_def lstrip_def rstrip_def)

lemma resolved_blank_iff:
  "strip (resolved w) = [] \<longleftrightarrow> strip (file_text w) = [] \<and> strip (lab_text_input w) = []"
  by (simp add: resolved_def final_text_def)

section \<open>Facts about the retry loop\<close>

lemma generate_once_trace: "snd (generate_once resp p n) = [GenerateContent p]"
  by (simp add: generate_once_def split: sum.split)

lemma generate_once_outcome:
  "fst (generate_once resp p n) = (case resp p n of Inl e \<Rightarrow> Inl e | Inr t \<Rightarrow> Inr (strip t))"
  by (simp add: generate_once_def split: sum.split)

lemma retry_call_result:
  "fst (fn n) = Inr r \<Longrightarrow> retry_call rel mn mx k fn rnd a n = (Inr r, snd (fn n))"
  by (subst retry_call.simps) simp

lemma retry_call_reraise:
  "fst (fn n) = Inl e \<Longrightarrow> \<not> is_exception e \<Longrightarrow>
   retry_call rel mn mx k fn rnd a n = (Inl e, snd (fn n))"
  by (subst retry_call.simps) simp

lemma retry_call_give_up:
  "fst (fn n) = Inl e \<Longrightarrow> is_exception e \<Longrightarrow> k \<le> n \<Longrightarrow>
   retry_call rel mn mx k fn rnd a n = (Inl (RetryError e a), snd (fn n))"
  by (subst retry_call.simps) (simp add: stop_after_attempt_def)

lemma retry_call_again:
  "fst (fn n) = Inl e \<Longrightarrow> is_exception e \<Longrightarrow> n < k \<Longrightarrow>
   retry_call rel mn mx k fn rnd a n =
     (fst (retry_call rel mn mx k fn rnd a (Suc n)),
      snd (fn n) @ [Sleep (wait_random_exponential rel mn mx n (rnd n))]
      @ snd (retry_call rel mn mx k fn rnd a (Suc n)))"
  by (subst retry_call.simps) (simp add: stop_after_attempt_def)

lemma prompts_sent_append: "prompts_sent (xs @ ys) = prompts_sent xs @ prompts_sent ys"
  by (induction xs rule: prompts_sent.induct) simp_all

text \<open>
  The loop ends at the first attempt that returns or raises something that is not an
  \<open>Exception\<close>, with the outcome of that attempt.
\<close>

lemma retry_call_ends:
  "n \<le> j \<Longrightarrow> j \<le> k \<Longrightarrow>
   (\<forall>i. n \<le> i \<and> i < j \<longrightarrow> (\<exists>e. fst (fn i) = Inl e \<and> is_exception e)) \<Longrightarrow>
   (\<forall>e. fst (fn j) = Inl e \<longrightarrow> \<not> is_exception e) \<Longrightarrow>
   (\<forall>i. snd (fn i) = [GenerateContent p]) \<Longrightarrow>
   fst (retry_call rel mn mx k fn rnd a n) = fst (fn j) \<and>
   prompts_sent (snd (retry_call rel mn mx k fn rnd a n)) = replicate (Suc (j - n)) p"
proof (induction "j - n" arbitrary: n)
  case 0
  then have nj: "n = j" by simp
  show ?case
  proof (cases "fst (fn j)")
    case (Inr r)
    then show ?thesis using nj "0.prems"(5) by (simp add: retry_call_result)
  next
    case (Inl e)
    then have "\<not> is_exception e" using "0.prems"(4) by simp
    with Inl show ?thesis using nj "0.prems"(5) by (simp add: retry_call_reraise)
  qed
next
  case (Suc d)
  then have lt: "n < j" by simp
  then obtain e where e: "fst (fn n) = Inl e" and ex: "is_exception e"
    using Suc.prems(3) by blast
  have nk: "n < k" using lt Suc.prems by simp
  have d: "d = j - Suc n" using Suc.hyps by simp
  have ih: "fst (retry_call rel mn mx k fn rnd a (Suc n)) = fst (fn j) \<and>
    prompts_sent (snd (retry_call rel mn mx k fn rnd a (Suc n))) = replicate (Suc (j - Suc n)) p"
    using Suc.hyps(1) [OF d] lt Suc.prems by simp
  have sub: "Suc (j - n) = Suc (Suc (j - Suc n))" using lt by simp
  show ?case
    using ih Suc.prems(5)
    by (simp add: retry_call_again [where fn = fn and n = n, OF e ex nk] sub prompts_sent_append)
qed

lemma retry_call_exhausts:
  "n \<le> k \<Longrightarrow> (\<forall>i. n \<le> i \<and> i \<le> k \<longrightarrow> fst (fn i) = Inl (e i) \<and> is_exception (e i)) \<Longrightarrow>
   (\<forall>i. snd (fn i) = [GenerateContent p]) \<Longrightarrow>
   fst (retry_call rel mn mx k fn rnd a n) = Inl (RetryError (e k) a) \<and>
   prompts_sent (snd (retry_call rel mn mx k fn rnd a n)) = replicate (Suc (k - n)) p"
proof (induction "k - n" arbitrary: n)
  case 0
  then have "n = k" by simp
  with 0 show ?case by (simp add: retry_call_give_up [where e = "e k"])
next
  case (Suc d)
  then have nk: "n < k" by simp
  have e: "fst (fn n) = Inl (e n)" and ex: "is_exception (e n)" using Suc.prems by simp_all
  have d: "d = k - Suc n" using Suc.hyps by simp
  have ih: "fst (retry_call rel mn mx k fn rnd a (Suc n)) = Inl (RetryError (e k) a) \<and>
    prompts_sent (snd (retry_call rel mn mx k fn rnd a (Suc n))) = replicate (Suc (k - Suc n)) p"
    using Suc.hyps(1) [OF d] nk Suc.prems by simp
  have sub: "Suc (k - n) = Suc (Suc (k - Suc n))" using nk by simp
  show ?case
    using ih Suc.prems(3)
    by (simp add: retry_call_again [where fn = fn and n = n, OF e ex nk] sub prompts_sent_append)
qed

lemma sleeps_append: "sleeps (xs @ ys) = sleeps xs @ sleeps ys"
  by (induction xs rule: sleeps.induct) simp_all

text \<open>One step of the loop, for the inductions below.\<close>

lemma retry_call_step:
  "(\<exists>r. fst (fn n) = Inr r \<and> retry_call rel mn mx k fn rnd a n = (Inr r, snd (fn n)))
   \<or> (\<exists>e. fst (fn n) = Inl e \<and> \<not> is_exception e
          \<and> retry_call rel mn mx k fn rnd a n = (Inl e, snd (fn n)))
   \<or> (\<exists>e. fst (fn n) = Inl e \<and> is_exception e \<and> k \<le> n
          \<and> retry_call rel mn mx k fn rnd a n = (Inl (RetryError e a), snd (fn n)))
   \<or> (\<exists>e. fst (fn n) = Inl e \<and> is_exception e \<and> n < k
          \<and> retry_call rel mn mx k fn rnd a n =
              (fst (retry_call rel mn mx k fn rnd a (Suc n)),
               snd (fn n) @ [Sleep (wait_random_exponential rel mn mx n (rnd n))]
               @ snd (retry_call rel mn mx k fn rnd a (Suc n))))"
proof (cases "fst (fn n)")
  case (Inr r)
  then show ?thesis by (simp add: retry_call_result)
next
  case (Inl e)
  show ?thesis
  proof (cases "is_exception e")
    case False
    with Inl show ?thesis by (simp add: retry_call_reraise)
  next
    case True
    show ?thesis
    proof (cases "n < k")
      case False
      then have "k \<le> n" by simp
      with Inl True show ?thesis by (simp add: retry_call_give_up)
    next
      case lt: True
      from retry_call_again [where fn = fn and n = n, OF Inl True lt]
      show ?thesis using Inl True lt by simp
    qed
  qed
qed

lemma retry_call_trace:
  "(\<forall>i. snd (fn i) = [GenerateContent p]) \<Longrightarrow>
   x \<in> set (snd (retry_call rel mn mx k fn rnd a n)) \<Longrightarrow>
   x = GenerateContent p \<or>
   (\<exists>i. n \<le> i \<and> i < k \<and> x = Sleep (wait_random_exponential rel mn mx i (rnd i)))"
proof (induction "k - n" arbitrary: n)
  case 0
  then have "k \<le> n" by simp
  then show ?case
    using retry_call_step [of fn n rel mn mx k rnd a] "0.prems" by auto
next
  case (Suc d)
  then have d: "d = k - Suc n" by simp
  from retry_call_step [of fn n rel mn mx k rnd a]
  consider "snd (retry_call rel mn mx k fn rnd a n) = snd (fn n)"
    | "n < k" "snd (retry_call rel mn mx k fn rnd a n) =
         snd (fn n) @ [Sleep (wait_random_exponential rel mn mx n (rnd n))]
         @ snd (retry_call rel mn mx k fn rnd a (Suc n))"
    by auto
  then show ?case
  proof cases
    case 1
    then show ?thesis using Suc.prems by simp
  next
    case 2
    then have "x = GenerateContent p \<or> x = Sleep (wait_random_exponential rel mn mx n (rnd n))
        \<or> x \<in> set (snd (retry_call rel mn mx k fn rnd a (Suc n)))"
      using Suc.prems by auto
    then show ?thesis
    proof (elim disjE)
      assume "x = GenerateContent p"
      then show ?thesis by simp
    next
      assume "x = Sleep (wait_random_exponential rel mn mx n (rnd n))"
      then show ?thesis using 2(1) by blast
    next
      assume "x \<in> set (snd (retry_call rel mn mx k fn rnd a (Suc n)))"
      from Suc.hyps(1) [OF d Suc.prems(1) this]
      show ?thesis
      proof
        assume "x = GenerateContent p"
        then show ?thesis by simp
      next
        assume "\<exists>i. Suc n \<le> i \<and> i < k \<and> x = Sleep (wait_random_exponential rel mn mx i (rnd i))"
        then obtain i where
          "Suc n \<le> i" "i < k" "x = Sleep (wait_random_exponential rel mn mx i (rnd i))"
          by blast
        then have "n \<le> i \<and> i < k \<and> x = Sleep (wait_random_exponential rel mn mx i (rnd i))"
          by simp
        then show ?thesis by blast
      qed
    qed
  qed
qed

lemma retry_call_counts:
  "(\<forall>i. snd (fn i) = [GenerateContent p]) \<Longrightarrow>
   Suc (length (sleeps (snd (retry_call rel mn mx k fn rnd a n))))
     = length (prompts_sent (snd (retry_call rel mn mx k fn rnd a n)))"
proof (induction "k - n" arbitrary: n)
  case 0
  then have "k \<le> n" by simp
  then show ?case
    using retry_call_step [of fn n rel mn mx k rnd a] "0.prems" by auto
next
  case (Suc d)
  then have d: "d = k - Suc n" by simp
  from retry_call_step [of fn n rel mn mx k rnd a]
  consider "snd (retry_call rel mn mx k fn rnd a n) = snd (fn n)"
    | "snd (retry_call rel mn mx k fn rnd a n) =
         snd (fn n) @ [Sleep (wait_random_exponential rel mn mx n (rnd n))]
         @ snd (retry_call rel mn mx k fn rnd a (Suc n))"
    by auto
  then show ?case
  proof cases
    case 1
    then show ?thesis using Suc.prems by simp
  next
    case 2
    then show ?thesis
      using Suc.hyps(1) [OF d Suc.prems] Suc.prems
      by (simp add: sleeps_append prompts_sent_append)
  qed
qed

lemma retry_call_returned:
  "fst (retry_call rel mn mx k fn rnd a n) = Inr r \<Longrightarrow> n \<le> k \<Longrightarrow>
   \<exists>i. n \<le> i \<and> i \<le> k \<and> fst (fn i) = Inr r"
proof (induction "k - n" arbitrary: n)
  case 0
  then have "k = n" by simp
  then show ?case
    using retry_call_step [of fn n rel mn mx k rnd a] "0.prems" by auto
next
  case (Suc d)
  then have d: "d = k - Suc n" and lt: "n < k" by simp_all
  from retry_call_step [of fn n rel mn mx k rnd a] Suc.prems(1)
  consider "fst (fn n) = Inr r"
    | "fst (retry_call rel mn mx k fn rnd a (Suc n)) = Inr r"
    by auto
  then show ?case
  proof cases
    case 1
    then show ?thesis using Suc.prems(2) by blast
  next
    case 2
    have "Suc n \<le> k" using lt by simp
    from Suc.hyps(1) [OF d 2 this]
    obtain i where "Suc n \<le> i" "i \<le> k" "fst (fn i) = Inr r" by blast
    then have "n \<le> i \<and> i \<le> k \<and> fst (fn i) = Inr r" by simp
    then show ?thesis by blast
  qed
qed

lemma wait_exponential_range:
  "0 \<le> mn \<Longrightarrow> mn \<le> mx \<Longrightarrow>
   mn \<le> wait_exponential m mx b mn n \<and> wait_exponential m mx b mn n \<le> mx"
  by (simp add: wait_exponential_def)

lemma uniform_range:
  assumes "a \<le> b" "0 \<le> u" "u \<le> 1"
  shows "a \<le> uniform a b u \<and> uniform a b u \<le> b"
proof -
  have nn: "0 \<le> b - a" using assms by simp
  have "0 \<le> (b - a) * u" using nn assms by simp
  moreover have "(b - a) * u \<le> b - a" using nn assms by (simp add: mult_left_le)
  ultimately show ?thesis by (simp add: uniform_def)
qed

text \<open>
  What holds of a wait on every release, and what holds from release 9.0 on only.
\<close>

lemma wait_random_exponential_range:
  assumes "0 \<le> mn" "mn \<le> mx" "0 \<le> u" "u \<le> 1"
  shows "0 \<le> wait_random_exponential rel mn mx n u
     \<and> wait_random_exponential rel mn mx n u \<le> mx
     \<and> (rel = From_9 \<longrightarrow> mn \<le> wait_random_exponential rel mn mx n u)"
proof -
  let ?high = "wait_exponential 1 mx 2 mn n"
  have h: "mn \<le> ?high \<and> ?high \<le> mx"
    using assms by (simp add: wait_exponential_range)
  have lo: "0 \<le> draw_from rel mn \<and> draw_from rel mn \<le> ?high"
    using h assms by (cases rel) (simp_all add: draw_from_def)
  then have "draw_from rel mn \<le> uniform (draw_from rel mn) ?high u
      \<and> uniform (draw_from rel mn) ?high u \<le> ?high"
    using assms uniform_range by blast
  with h lo show ?thesis by (auto simp: wait_random_exponential_def draw_from_def)
qed

lemma sleeps_mem: "d \<in> set (sleeps tr) \<longleftrightarrow> Sleep d \<in> set tr"
  by (induction tr rule: sleeps.induct) auto

lemma prompts_sent_mem: "p \<in> set (prompts_sent tr) \<longleftrightarrow> GenerateContent p \<in> set tr"
  by (induction tr rule: prompts_sent.induct) auto

lemma safe_generate_trace:
  "x \<in> set (snd (safe_generate w p)) \<Longrightarrow> x = GenerateContent p \<or> (\<exists>d. x = Sleep d)"
  unfolding safe_generate_def
  using retry_call_trace [where fn = "generate_once (respond w) p" and p = p]
  by (fastforce simp: generate_once_trace)

text \<open>
  With \<open>min=12, max=60\<close> the window of the first four attempts ends at 12: from release
  9.0 on the wait is 12 whatever is drawn, before it the wait is 12 times the draw.
\<close>

lemma wait_first_attempts:
  "1 \<le> n \<Longrightarrow> n \<le> 4 \<Longrightarrow>
   wait_random_exponential From_9 12 60 n u = 12
   \<and> wait_random_exponential Before_9 12 60 n u = 12 * u"
proof -
  assume "1 \<le> n" "n \<le> 4"
  then have "n = 1 \<or> n = 2 \<or> n = 3 \<or> n = 4" by auto
  then show ?thesis
    by (auto simp: wait_random_exponential_def wait_exponential_def uniform_def draw_from_def)
qed

lemma safe_generate_exhausted:
  assumes "\<forall>i. 1 \<le> i \<and> i \<le> 4 \<longrightarrow> respond w p i = Inl (e i) \<and> is_exception (e i)"
  shows "safe_generate w p =
     (Inl (RetryError (e 4) (future_id w)),
      [GenerateContent p, Sleep (wait_random_exponential (tenacity w) 12 60 1 (random w 1)),
       GenerateContent p, Sleep (wait_random_exponential (tenacity w) 12 60 2 (random w 2)),
       GenerateContent p, Sleep (wait_random_exponential (tenacity w) 12 60 3 (random w 3)),
       GenerateContent p])"
proof -
  let ?fn = "generate_once (respond w) p"
  let ?go = "retry_call (tenacity w) 12 60 4 ?fn (random w) (future_id w)"
  let ?wait = "\<lambda>i. Sleep (wait_random_exponential (tenacity w) 12 60 i (random w i))"
  have f: "\<And>i. 1 \<le> i \<Longrightarrow> i \<le> 4 \<Longrightarrow> fst (?fn i) = Inl (e i)"
    using assms by (simp add: generate_once_outcome)
  have x: "\<And>i. 1 \<le> i \<Longrightarrow> i \<le> 4 \<Longrightarrow> is_exception (e i)"
    using assms by simp
  have s2: "Suc (Suc 0) = 2" by simp
  have r4: "?go 4 = (Inl (RetryError (e 4) (future_id w)), [GenerateContent p])"
    using retry_call_give_up [where fn = ?fn and n = 4 and k = 4 and e = "e 4"] f [of 4] x [of 4]
    by (simp add: generate_once_trace)
  have r3: "?go 3 = (Inl (RetryError (e 4) (future_id w)),
      [GenerateContent p, ?wait 3, GenerateContent p])"
    using retry_call_again [where fn = ?fn and n = 3 and k = 4 and e = "e 3"] f [of 3] x [of 3]
    by (simp add: generate_once_trace r4)
  have r2: "?go 2 = (Inl (RetryError (e 4) (future_id w)),
      [GenerateContent p, ?wait 2, GenerateContent p, ?wait 3, GenerateContent p])"
    using retry_call_again [where fn = ?fn and n = 2 and k = 4 and e = "e 2"] f [of 2] x [of 2]
    by (simp add: generate_once_trace r3)
  have r1: "?go 1 = (Inl (RetryError (e 4) (future_id w)),
      [GenerateContent p, ?wait 1, GenerateContent p, ?wait 2, GenerateContent p, ?wait 3,
       GenerateContent p])"
    using retry_call_again [where fn = ?fn and n = 1 and k = 4 and e = "e 1"] f [of 1] x [of 1]
    by (simp add: generate_once_trace r2 s2)
  then show ?thesis by (simp only: safe_generate_def)
qed

lemma safe_generate_first:
  "respond w p 1 = Inr t \<Longrightarrow> safe_generate w p = (Inr (strip t), [GenerateContent p])"
  unfolding safe_generate_def
  by (subst retry_call_result [where r = "strip t"])
     (simp_all add: generate_once_outcome generate_once_trace)

lemma safe_generate_interrupted:
  "respond w p 1 = Inl e \<Longrightarrow> \<not> is_exception e \<Longrightarrow>
   safe_generate w p = (Inl e, [GenerateContent p])"
  unfolding safe_generate_def
  by (subst retry_call_reraise [where e = e])
     (simp_all add: generate_once_outcome generate_once_trace)

text \<open>
  On every release the waits lie between consecutive attempts and each is between 0 and
  60 seconds; from release 9.0 on each is at least 12 seconds.
\<close>

lemma waits_in_range:
  assumes "\<forall>n. 0 \<le> random w n \<and> random w n < 1"
  shows "Suc (length (sleeps (snd (safe_generate w p))))
           = length (prompts_sent (snd (safe_generate w p)))"
    and "d \<in> set (sleeps (snd (safe_generate w p))) \<Longrightarrow>
           0 \<le> d \<and> d \<le> 60 \<and> (tenacity w = From_9 \<longrightarrow> 12 \<le> d)"
proof -
  show "Suc (length (sleeps (snd (safe_generate w p))))
      = length (prompts_sent (snd (safe_generate w p)))"
    unfolding safe_generate_def by (rule retry_call_counts) (simp add: generate_once_trace)
next
  assume "d \<in> set (sleeps (snd (safe_generate w p)))"
  then have mem: "Sleep d \<in> set (snd (retry_call (tenacity w) 12 60 4
      (generate_once (respond w) p) (random w) (future_id w) 1))"
    by (simp add: sleeps_mem safe_generate_def)
  have tr: "\<forall>i. snd (generate_once (respond w) p i) = [GenerateContent p]"
    by (simp add: generate_once_trace)
  from retry_call_trace [OF tr mem]
  have "\<exists>i. d = wait_random_exponential (tenacity w) 12 60 i (random w i)" by auto
  then obtain i where d: "d = wait_random_exponential (tenacity w) 12 60 i (random w i)" ..
  have "0 \<le> random w i \<and> random w i < 1" using assms ..
  then have "0 \<le> random w i" "random w i \<le> 1" by simp_all
  then show "0 \<le> d \<and> d \<le> 60 \<and> (tenacity w = From_9 \<longrightarrow> 12 \<le> d)"
    using wait_random_exponential_range [of 12 60 "random w i" "tenacity w" i] d by simp
qed

section \<open>The claims about the retry wrapper\<close>

text \<open>
  C1, as stated: \<open>safe_generate\<close> retries the generation call on anything it raises,
  with no distinction by type.  It fails when the first call is interrupted from the
  keyboard: a second call would have answered, yet \<open>safe_generate\<close> raises the
  interrupt after that one call.
\<close>

theorem interrupt_not_retried_counterexample:
  "respond (example_world None (Some lab_example) interrupted_first) (full_prompt lab_example) 1
     = Inl keyboard_interrupt
   \<and> respond (example_world None (Some lab_example) interrupted_first) (full_prompt lab_example) 2
     = Inr (ascii ''Your A1C is elevated...'')
   \<and> safe_generate (example_world None (Some lab_example) interrupted_first)
        (full_prompt lab_example)
     = (Inl keyboard_interrupt, [GenerateContent (full_prompt lab_example)])"
proof -
  let ?w = "example_world None (Some lab_example) interrupted_first"
  have r1: "respond ?w (full_prompt lab_example) 1 = Inl keyboard_interrupt"
    by (simp add: example_world_def interrupted_first_def)
  have r2: "respond ?w (full_prompt lab_example) 2 = Inr (ascii ''Your A1C is elevated...'')"
    by (simp add: example_world_def interrupted_first_def)
  have "\<not> is_exception keyboard_interrupt" by (simp add: keyboard_interrupt_def)
  with r1 have "safe_generate ?w (full_prompt lab_example)
      = (Inl keyboard_interrupt, [GenerateContent (full_prompt lab_example)])"
    by (rule safe_generate_interrupted)
  with r1 r2 show ?thesis by blast
qed

text \<open>
  C1, amended.  \<open>safe_generate\<close> retries the generation call on every \<open>Exception\<close>,
  whatever its class or message, for up to four attempts in all.  If the attempts before
  attempt \<open>j \<le> 4\<close> raise an \<open>Exception\<close> and attempt \<open>j\<close> returns, \<open>safe_generate\<close>
  returns that result after exactly \<open>j\<close> calls; in particular a success at the fourth
  attempt after three failures is returned.  If all four attempts raise an
  \<open>Exception\<close>, it gives up after exactly four calls.  If attempt \<open>j\<close> raises something
  that is not an \<open>Exception\<close>, that is raised at once, after exactly \<open>j\<close> calls.
\<close>

theorem safe_generate_retries:
  "(1 \<le> j \<and> j \<le> 4
      \<and> (\<forall>i. 1 \<le> i \<and> i < j \<longrightarrow> (\<exists>x. respond w p i = Inl x \<and> is_exception x))
      \<and> respond w p j = Inr t
      \<longrightarrow> fst (safe_generate w p) = Inr (strip t)
          \<and> prompts_sent (snd (safe_generate w p)) = replicate j p)
   \<and> ((\<forall>i. 1 \<le> i \<and> i \<le> 4 \<longrightarrow> respond w p i = Inl (e i) \<and> is_exception (e i))
      \<longrightarrow> fst (safe_generate w p) = Inl (RetryError (e 4) (future_id w))
          \<and> prompts_sent (snd (safe_generate w p)) = replicate 4 p)
   \<and> (1 \<le> j \<and> j \<le> 4
      \<and> (\<forall>i. 1 \<le> i \<and> i < j \<longrightarrow> (\<exists>x. respond w p i = Inl x \<and> is_exception x))
      \<and> respond w p j = Inl b \<and> \<not> is_exception b
      \<longrightarrow> fst (safe_generate w p) = Inl b
          \<and> prompts_sent (snd (safe_generate w p)) = replicate j p)"
proof -
  let ?fn = "generate_once (respond w) p"
  have tr: "\<forall>i. snd (?fn i) = [GenerateContent p]"
    by (simp add: generate_once_trace)
  have ends: "fst (safe_generate w p) = fst (?fn j)
      \<and> prompts_sent (snd (safe_generate w p)) = replicate j p"
    if j: "1 \<le> j" "j \<le> 4"
      and fails: "\<forall>i. 1 \<le> i \<and> i < j \<longrightarrow> (\<exists>x. respond w p i = Inl x \<and> is_exception x)"
      and last: "\<forall>x. fst (?fn j) = Inl x \<longrightarrow> \<not> is_exception x"
  proof -
    have f: "\<forall>i. 1 \<le> i \<and> i < j \<longrightarrow> (\<exists>x. fst (?fn i) = Inl x \<and> is_exception x)"
      using fails by (auto simp: generate_once_outcome)
    have "Suc (j - 1) = j" using j by simp
    then show ?thesis
      unfolding safe_generate_def
      using retry_call_ends [OF j f last tr, of "tenacity w" 12 60 "random w" "future_id w"]
      by simp
  qed
  have part1: "fst (safe_generate w p) = Inr (strip t)
      \<and> prompts_sent (snd (safe_generate w p)) = replicate j p"
    if a: "1 \<le> j \<and> j \<le> 4
      \<and> (\<forall>i. 1 \<le> i \<and> i < j \<longrightarrow> (\<exists>x. respond w p i = Inl x \<and> is_exception x))
      \<and> respond w p j = Inr t"
  proof -
    have ok: "fst (?fn j) = Inr (strip t)" using a by (simp add: generate_once_outcome)
    then have "\<forall>x. fst (?fn j) = Inl x \<longrightarrow> \<not> is_exception x" by simp
    with a ends have "fst (safe_generate w p) = fst (?fn j)
      \<and> prompts_sent (snd (safe_generate w p)) = replicate j p" by blast
    with ok show ?thesis by simp
  qed
  have part3: "fst (safe_generate w p) = Inl b
      \<and> prompts_sent (snd (safe_generate w p)) = replicate j p"
    if a: "1 \<le> j \<and> j \<le> 4
      \<and> (\<forall>i. 1 \<le> i \<and> i < j \<longrightarrow> (\<exists>x. respond w p i = Inl x \<and> is_exception x))
      \<and> respond w p j = Inl b \<and> \<not> is_exception b"
  proof -
    have ok: "fst (?fn j) = Inl b" using a by (simp add: generate_once_outcome)
    then have "\<forall>x. fst (?fn j) = Inl x \<longrightarrow> \<not> is_exception x" using a by simp
    with a ends have "fst (safe_generate w p) = fst (?fn j)
      \<and> prompts_sent (snd (safe_generate w p)) = replicate j p" by blast
    with ok show ?thesis by simp
  qed
  have part2: "fst (safe_generate w p) = Inl (RetryError (e 4) (future_id w))
      \<and> prompts_sent (snd (safe_generate w p)) = replicate 4 p"
    if a: "\<forall>i. 1 \<le> i \<and> i \<le> 4 \<longrightarrow> respond w p i = Inl (e i) \<and> is_exception (e i)"
  proof -
    have fails: "\<forall>i. 1 \<le> i \<and> i \<le> 4 \<longrightarrow> fst (?fn i) = Inl (e i) \<and> is_exception (e i)"
      using a by (simp add: generate_once_outcome)
    have le: "(1::nat) \<le> 4" by simp
    have n4: "Suc (4 - 1) = (4::nat)" by simp
    show ?thesis
      unfolding safe_generate_def
      using retry_call_exhausts [OF le fails tr, of "tenacity w" 12 60 "random w" "future_id w"]
      by (simp only: n4)
  qed
  from part1 part2 part3 show ?thesis by blast
qed

theorem safe_generate_retries_witness:
  "fst (safe_generate (example_world None (Some lab_example) fourth_succeeds) lab_example)
     = Inr (ascii ''Your A1C is elevated...'')
   \<and> fst (safe_generate (example_world None (Some lab_example) always_fails) lab_example)
     = Inl (RetryError quota_exceeded 0x7f3a5c1d2e80)
   \<and> fst (safe_generate (example_world None (Some lab_example) interrupted_first) lab_example)
     = Inl keyboard_interrupt"
proof -
  let ?ok = "example_world None (Some lab_example) fourth_succeeds"
  let ?bad = "example_world None (Some lab_example) always_fails"
  let ?int = "example_world None (Some lab_example) interrupted_first"
  have s: "strip (ascii ''Your A1C is elevated...'') = ascii ''Your A1C is elevated...''"
    by (simp add: strip_def lstrip_def rstrip_def ascii_def py_isspace_def)
  have q: "is_exception quota_exceeded" by (simp add: quota_exceeded_def)
  have k: "\<not> is_exception keyboard_interrupt" by (simp add: keyboard_interrupt_def)
  have "fst (safe_generate ?ok lab_example) = Inr (strip (ascii ''Your A1C is elevated...''))"
    using safe_generate_retries [of 4 ?ok lab_example "ascii ''Your A1C is elevated...''"] q
    by (simp add: example_world_def fourth_succeeds_def)
  moreover have "fst (safe_generate ?bad lab_example)
      = Inl (RetryError quota_exceeded 0x7f3a5c1d2e80)"
    using safe_generate_retries [of _ ?bad lab_example _ "\<lambda>n. quota_exceeded"] q
    by (simp add: example_world_def always_fails_def)
  moreover have "fst (safe_generate ?int lab_example) = Inl keyboard_interrupt"
    using safe_generate_retries [of 1 ?int lab_example _ _ keyboard_interrupt] k
    by (simp add: example_world_def interrupted_first_def)
  ultimately show ?thesis by (simp only: s)
qed

text \<open>
  C7 says that every wait between attempts is at least 12 and at most 60 seconds, and
  the comment of line 32 promises the 12 seconds.  The script gets them from the
  \<open>min=12\<close> it passes to \<open>wait_random_exponential\<close>, which only tenacity from release
  9.0 on uses as the lower end of the draw; the repository pins no release.  In the run
  below, on an earlier release with every draw at one half and every attempt failing,
  the three waits are 6 seconds each; from release 9.0 on they are 12 seconds each.
\<close>

theorem waits_below_minimum:
  "sleeps (snd (safe_generate
      ((example_world None (Some lab_example) always_fails)\<lparr>tenacity := Before_9\<rparr>)
      (full_prompt lab_example))) = [6, 6, 6]
   \<and> sleeps (snd (safe_generate (example_world None (Some lab_example) always_fails)
      (full_prompt lab_example))) = [12, 12, 12]"
proof -
  let ?new = "example_world None (Some lab_example) always_fails"
  let ?old = "?new\<lparr>tenacity := Before_9\<rparr>"
  let ?p = "full_prompt lab_example"
  have q: "is_exception quota_exceeded" by (simp add: quota_exceeded_def)
  have "\<forall>i. 1 \<le> i \<and> i \<le> 4 \<longrightarrow>
      respond ?old ?p i = Inl quota_exceeded \<and> is_exception quota_exceeded"
    using q by (simp add: example_world_def always_fails_def)
  from safe_generate_exhausted [where e = "\<lambda>i. quota_exceeded", OF this]
  have old: "sleeps (snd (safe_generate ?old ?p)) = [6, 6, 6]"
    by (simp add: wait_first_attempts example_world_def)
  have "\<forall>i. 1 \<le> i \<and> i \<le> 4 \<longrightarrow>
      respond ?new ?p i = Inl quota_exceeded \<and> is_exception quota_exceeded"
    using q by (simp add: example_world_def always_fails_def)
  from safe_generate_exhausted [where e = "\<lambda>i. quota_exceeded", OF this]
  have new: "sleeps (snd (safe_generate ?new ?p)) = [12, 12, 12]"
    by (simp add: wait_first_attempts example_world_def)
  from old new show ?thesis by blast
qed

section \<open>Facts about a run\<close>

lemma file_upload_effects:
  "x \<in> set (snd (file_upload up)) \<Longrightarrow> x = StWarning unreadable_msg"
  by (auto simp: file_upload_def split: option.splits)

lemma explain_effects:
  "x \<in> set (explain tbl w) \<Longrightarrow>
   x = Render Spinner \<or> x = GenerateContent (full_prompt (resolved w)) \<or> (\<exists>d. x = Sleep d)
   \<or> (\<exists>a. fst (safe_generate w (full_prompt (resolved w))) = Inr a
          \<and> (x = StSuccess draft_msg \<or> x = StWrite a))
   \<or> (\<exists>e. fst (safe_generate w (full_prompt (resolved w))) = Inl e
          \<and> (x = Uncaught e
              \<or> x = StError (if rate_limited tbl e then quota_msg else oops_msg e)))"
proof -
  assume "x \<in> set (explain tbl w)"
  then consider "x = Render Spinner"
    | "x \<in> set (snd (safe_generate w (full_prompt (resolved w))))"
    | "x \<in> set (case fst (safe_generate w (full_prompt (resolved w))) of
          Inr answer \<Rightarrow> [StSuccess draft_msg, StWrite answer]
        | Inl e \<Rightarrow>
            if \<not> is_exception e then [Uncaught e]
            else if rate_limited tbl e then [StError quota_msg] else [StError (oops_msg e)])"
    by (auto simp: explain_def)
  then show ?thesis
  proof cases
    case 1
    then show ?thesis by simp
  next
    case 2
    then show ?thesis using safe_generate_trace by blast
  next
    case 3
    then show ?thesis
      by (cases "fst (safe_generate w (full_prompt (resolved w)))") (auto split: if_splits)
  qed
qed

lemma app_cases:
  "app tbl w =
     (if \<not> serving w then
        (case getenv_key w of
           None \<Rightarrow> [StError missing_key_msg]
         | Some k \<Rightarrow>
             if k = [] then [StError missing_key_msg]
             else if is_exception (the (init_error w))
             then [Configure k, StError (init_failed_msg (the (init_error w)))]
             else [Configure k, Uncaught (the (init_error w))])
      else
        [Configure (the (getenv_key w)), Render PageConfig, Render Title, Render Markdown,
         Render FileUploader]
        @ snd (file_upload (uploaded_file w))
        @ [Render (TextArea (file_text w)), Render Button]
        @ (if clicked w
           then (if strip (resolved w) = [] then [StWarning no_input_msg]
                 else explain tbl w @ (if escapes w then [] else [Render SidebarInfo]))
           else [Render SidebarInfo]))"
  by (auto simp: app_def serving_def split: option.splits)

lemma app_write:
  "StWrite a \<in> set (app tbl w) \<Longrightarrow> fst (safe_generate w (full_prompt (resolved w))) = Inr a"
proof -
  assume a: "StWrite a \<in> set (app tbl w)"
  have nf: "StWrite a \<notin> set (snd (file_upload (uploaded_file w)))"
    using file_upload_effects by blast
  from a nf have "StWrite a \<in> set (explain tbl w)"
    by (auto simp: app_cases split: if_splits option.splits)
  then show ?thesis using explain_effects [of "StWrite a" tbl w] by auto
qed

lemma app_prompts:
  "GenerateContent p \<in> set (app tbl w) \<Longrightarrow>
   p = full_prompt (resolved w) \<and> serving w \<and> clicked w \<and> strip (resolved w) \<noteq> []"
proof -
  assume a: "GenerateContent p \<in> set (app tbl w)"
  have nf: "GenerateContent p \<notin> set (snd (file_upload (uploaded_file w)))"
    using file_upload_effects by blast
  from a nf have "GenerateContent p \<in> set (explain tbl w) \<and> serving w \<and> clicked w
      \<and> strip (resolved w) \<noteq> []"
    by (auto simp: app_cases split: if_splits option.splits)
  then show ?thesis using explain_effects [of "GenerateContent p" tbl w] by auto
qed

lemma strip_lab_example: "strip lab_example = lab_example"
  by (simp add: strip_def lstrip_def rstrip_def ascii_def py_isspace_def lab_example_def)

lemma lab_example_not_blank: "strip lab_example \<noteq> []"
  by (simp add: strip_lab_example) (simp add: lab_example_def ascii_def)

lemma example_world_typed:
  "resolved (example_world None (Some t) f) = t"
  by (simp add: resolved_def final_text_def lab_text_input_def file_text_def file_upload_def
      text_area_def example_world_def strip_Nil)

lemma example_world_serving: "serving (example_world up ty f)"
  by (simp add: serving_def example_world_def ascii_def)

section \<open>The claims about the displayed explanation\<close>

text \<open>
  C9.  Whenever \<open>safe_generate\<close> returns, its result is the \<open>response.text\<close> of one of
  the at most four attempts with leading and trailing whitespace stripped.  The result
  never begins or ends with whitespace, it differs from the raw text whenever the raw text
  has whitespace at either end, and it is the one explanation that the run writes out.
\<close>

theorem safe_generate_strips:
  "fst (safe_generate w p) = Inr r \<Longrightarrow>
     (\<exists>n t. 1 \<le> n \<and> n \<le> 4 \<and> respond w p n = Inr t \<and> r = strip t \<and> (edge_space t \<longrightarrow> r \<noteq> t))
     \<and> \<not> edge_space r
     \<and> (p = full_prompt (resolved w) \<longrightarrow>
          (\<forall>a. StWrite a \<in> set (app tbl w) \<longrightarrow> a = r)
          \<and> (serving w \<and> clicked w \<and> strip (resolved w) \<noteq> [] \<longrightarrow> StWrite r \<in> set (app tbl w)))"
proof (intro conjI impI allI)
  assume ok: "fst (safe_generate w p) = Inr r"
  have le: "(1::nat) \<le> 4" by simp
  from retry_call_returned [OF ok [unfolded safe_generate_def] le]
  obtain n where n: "1 \<le> n" "n \<le> 4" "fst (generate_once (respond w) p n) = Inr r"
    by blast
  then obtain t where t: "respond w p n = Inr t" "r = strip t"
    by (auto simp: generate_once_outcome split: sum.splits)
  have "edge_space t \<longrightarrow> r \<noteq> t" using t strip_changes by simp
  with n t show "\<exists>n t. 1 \<le> n \<and> n \<le> 4 \<and> respond w p n = Inr t \<and> r = strip t
      \<and> (edge_space t \<longrightarrow> r \<noteq> t)"
    by blast
  show "\<not> edge_space r" using t strip_no_edge by simp
  {
    fix a
    assume "p = full_prompt (resolved w)" "StWrite a \<in> set (app tbl w)"
    then show "a = r" using app_write [of a tbl w] ok by simp
  }
  {
    assume "p = full_prompt (resolved w)" "serving w \<and> clicked w \<and> strip (resolved w) \<noteq> []"
    then show "StWrite r \<in> set (app tbl w)"
      using ok by (simp add: app_cases explain_def)
  }
qed

theorem safe_generate_strips_witness:
  "fst (safe_generate
          (example_world None (Some lab_example) answers_padded)
          (full_prompt lab_example))
     = Inr (ascii ''Your A1C is elevated...'')
   \<and> edge_space (ascii ''  Your A1C is elevated...'' @ [10])
   \<and> \<not> edge_space (ascii ''Your A1C is elevated...'')
   \<and> StWrite (ascii ''Your A1C is elevated...'')
       \<in> set (app plain_table
             (example_world None (Some lab_example) answers_padded))"
proof -
  let ?w = "example_world None (Some lab_example) answers_padded"
  have s: "strip (ascii ''  Your A1C is elevated...'' @ [10]) = ascii ''Your A1C is elevated...''"
    by (simp add: strip_def lstrip_def rstrip_def ascii_def py_isspace_def)
  have "respond ?w (full_prompt lab_example) 1 = Inr (ascii ''  Your A1C is elevated...'' @ [10])"
    by (simp add: example_world_def fourth_succeeds_def always_fails_def answers_padded_def)
  then have ok: "fst (safe_generate ?w (full_prompt lab_example))
      = Inr (ascii ''Your A1C is elevated...'')"
    by (simp add: safe_generate_first s)
  have e: "edge_space (ascii ''  Your A1C is elevated...'' @ [10])"
    by (simp add: edge_space_def ascii_def py_isspace_def)
  have c: "clicked ?w" by (simp add: example_world_def)
  show ?thesis
    using safe_generate_strips [OF ok, of plain_table] ok e c
    by (simp add: example_world_typed example_world_serving lab_example_not_blank)
qed

section \<open>The claims about the input resolver\<close>

lemma file_text_decoded:
  "uploaded_file w = Some bs \<Longrightarrow> utf8_decode bs = Some c \<Longrightarrow> file_text w = c"
  by (simp add: file_text_def file_upload_def)

lemma file_text_none: "uploaded_file w = None \<Longrightarrow> file_text w = []"
  by (simp add: file_text_def file_upload_def)

lemma lab_text_input_typed: "typed w = Some t \<Longrightarrow> lab_text_input w = t"
  by (simp add: lab_text_input_def text_area_def)

text \<open>
  C3, as stated: the submitted text is the decoded upload whenever the upload is
  non-empty.  It fails for an upload that holds a single space: the upload is not empty,
  yet the typed text is submitted.
\<close>

theorem upload_wins_counterexample:
  "uploaded_file (example_world (Some [0x20]) (Some lab_example) always_fails) = Some [0x20]
   \<and> utf8_decode [0x20] = Some [32]
   \<and> [32] \<noteq> ([] :: pystr)
   \<and> resolved (example_world (Some [0x20]) (Some lab_example) always_fails) \<noteq> [32]
   \<and> resolved (example_world (Some [0x20]) (Some lab_example) always_fails) = lab_example"
  by (simp add: resolved_def final_text_def lab_text_input_def file_text_def file_upload_def
      text_area_def example_world_def strip_def lstrip_def rstrip_def py_isspace_def)
     (simp add: lab_example_def ascii_def)

text \<open>
  C3, amended.  The submitted text is the decoded upload whenever the upload has a
  character that is not whitespace, whatever was typed; it is the text of the text area
  when the decoded upload is empty or whitespace only, and when there is no upload.  In
  particular, with no upload and typed text \<open>t\<close> the submitted text is \<open>t\<close>.
\<close>

theorem resolved_text:
  "(uploaded_file w = Some bs \<and> utf8_decode bs = Some c \<and> strip c \<noteq> [] \<longrightarrow> resolved w = c)
   \<and> (uploaded_file w = Some bs \<and> utf8_decode bs = Some c \<and> strip c = []
        \<longrightarrow> resolved w = lab_text_input w)
   \<and> (uploaded_file w = None \<longrightarrow> resolved w = lab_text_input w)
   \<and> (uploaded_file w = None \<and> typed w = Some t \<longrightarrow> resolved w = t)"
  by (auto simp: resolved_def final_text_def file_text_decoded file_text_none strip_Nil
      lab_text_input_typed)

theorem resolved_text_witness:
  "resolved (example_world (Some [0x41, 0x31, 0x43]) (Some lab_example) always_fails)
     = ascii ''A1C''
   \<and> resolved (example_world (Some [0x20]) (Some lab_example) always_fails)
     = lab_example
   \<and> resolved (example_world None (Some lab_example) always_fails) = lab_example"
proof -
  let ?f = always_fails
  let ?w1 = "example_world (Some [0x41, 0x31, 0x43]) (Some lab_example) ?f"
  let ?w2 = "example_world (Some [0x20]) (Some lab_example) ?f"
  let ?w3 = "example_world None (Some lab_example) ?f"
  have u1: "uploaded_file ?w1 = Some [0x41, 0x31, 0x43]" by (simp add: example_world_def)
  have d1: "utf8_decode [0x41, 0x31, 0x43] = Some (ascii ''A1C'')" by (simp add: ascii_def)
  have s1: "strip (ascii ''A1C'') \<noteq> []"
    by (simp add: strip_def lstrip_def rstrip_def ascii_def py_isspace_def)
  have u2: "uploaded_file ?w2 = Some [0x20]" by (simp add: example_world_def)
  have d2: "utf8_decode [0x20] = Some [32]" by simp
  have s2: "strip [32] = []" by (simp add: strip_def lstrip_def rstrip_def py_isspace_def)
  have t2: "lab_text_input ?w2 = lab_example"
    by (simp add: lab_text_input_def text_area_def example_world_def)
  have u3: "uploaded_file ?w3 = None" by (simp add: example_world_def)
  have t3: "typed ?w3 = Some lab_example" by (simp add: example_world_def)
  have "resolved ?w1 = ascii ''A1C''"
    using resolved_text [of ?w1 "[0x41, 0x31, 0x43]" "ascii ''A1C''"] u1 d1 s1 by blast
  moreover have "resolved ?w2 = lab_example"
    using resolved_text [of ?w2 "[0x20]" "[32]"] u2 d2 s2 t2 by simp
  moreover have "resolved ?w3 = lab_example"
    using resolved_text [of ?w3 _ _ lab_example] u3 t3 by blast
  ultimately show ?thesis by blast
qed

text \<open>
  C10, as stated: a decoded upload that is not empty but whitespace only is treated as
  absent, and the submitted text is the typed text, not the upload content.  It fails
  when nothing was typed: the text area is pre-filled with the upload (line 77), so the
  submitted text is the whitespace-only upload content itself.
\<close>

theorem blank_upload_prefilled_counterexample:
  "uploaded_file (example_world (Some [0x20, 0x0A]) None always_fails) = Some [0x20, 0x0A]
   \<and> utf8_decode [0x20, 0x0A] = Some [32, 10]
   \<and> [32, 10] \<noteq> ([] :: pystr)
   \<and> strip [32, 10] = []
   \<and> typed (example_world (Some [0x20, 0x0A]) None always_fails) = None
   \<and> resolved (example_world (Some [0x20, 0x0A]) None always_fails) = [32, 10]"
  by (simp add: resolved_def final_text_def lab_text_input_def file_text_def file_upload_def
      text_area_def example_world_def strip_def lstrip_def rstrip_def py_isspace_def)

text \<open>
  C10, amended.  A decoded upload that is not empty but consists of whitespace only does
  not win over the text area: the submitted text is the value of the text area.  That is
  the typed text when the user typed something; when nothing was typed it is the
  pre-filled value, which is the whitespace-only upload content.
\<close>

theorem blank_upload_resolved:
  "uploaded_file w = Some bs \<Longrightarrow> utf8_decode bs = Some c \<Longrightarrow> c \<noteq> [] \<Longrightarrow> strip c = [] \<Longrightarrow>
   resolved w = lab_text_input w
   \<and> (typed w = Some t \<longrightarrow> resolved w = t)
   \<and> (typed w = None \<longrightarrow> resolved w = c)"
  by (simp add: resolved_def final_text_def file_text_decoded lab_text_input_def text_area_def)

theorem blank_upload_resolved_witness:
  "utf8_decode [0x20, 0x0A] = Some [32, 10] \<and> [32, 10] \<noteq> ([] :: pystr) \<and> strip [32, 10] = []
   \<and> resolved (example_world (Some [0x20, 0x0A]) (Some lab_example) always_fails)
      = lab_example
   \<and> resolved (example_world (Some [0x20, 0x0A]) None always_fails) = [32, 10]"
proof -
  let ?w = "example_world (Some [0x20, 0x0A]) (Some lab_example) always_fails"
  let ?v = "example_world (Some [0x20, 0x0A]) None always_fails"
  have u: "uploaded_file ?w = Some [0x20, 0x0A]" by (simp add: example_world_def)
  have u': "uploaded_file ?v = Some [0x20, 0x0A]" by (simp add: example_world_def)
  have d: "utf8_decode [0x20, 0x0A] = Some [32, 10]" by simp
  have n: "[32, 10] \<noteq> ([] :: pystr)" by simp
  have s: "strip [32, 10] = []" by (simp add: strip_def lstrip_def rstrip_def py_isspace_def)
  have t: "typed ?w = Some lab_example" by (simp add: example_world_def)
  have t': "typed ?v = None" by (simp add: example_world_def)
  have "typed ?w = Some lab_example \<longrightarrow> resolved ?w = lab_example"
    using blank_upload_resolved [OF u d n s, of lab_example] by blast
  then have a: "resolved ?w = lab_example" using t by blast
  have "typed ?v = None \<longrightarrow> resolved ?v = [32, 10]"
    using blank_upload_resolved [OF u' d n s] by blast
  then have b: "resolved ?v = [32, 10]" using t' by blast
  from d n s a b show ?thesis by blast
qed

text \<open>
  C6.  For an upload whose bytes are not valid UTF-8, the collector shows the decoding
  warning and continues with an empty upload text, so the submitted text is the text of
  the text area: what the user typed, or nothing.
\<close>

theorem undecodable_upload:
  "uploaded_file w = Some bs \<Longrightarrow> utf8_decode bs = None \<Longrightarrow>
   file_upload (uploaded_file w) = ([], [StWarning unreadable_msg])
   \<and> file_text w = []
   \<and> resolved w = lab_text_input w
   \<and> lab_text_input w = (case typed w of None \<Rightarrow> [] | Some t \<Rightarrow> t)
   \<and> (serving w \<longrightarrow> StWarning unreadable_msg \<in> set (app tbl w))"
  by (simp add: resolved_def final_text_def file_text_def file_upload_def strip_Nil
      lab_text_input_def text_area_def app_cases)

theorem undecodable_upload_witness:
  "utf8_decode [0xFF, 0xFE, 0x41] = None
   \<and> resolved (example_world (Some [0xFF, 0xFE, 0x41]) (Some lab_example) always_fails)
      = lab_example
   \<and> StWarning unreadable_msg
       \<in> set (app plain_table
           (example_world (Some [0xFF, 0xFE, 0x41]) (Some lab_example) always_fails))"
proof -
  let ?w = "example_world (Some [0xFF, 0xFE, 0x41]) (Some lab_example) always_fails"
  have u: "uploaded_file ?w = Some [0xFF, 0xFE, 0x41]" by (simp add: example_world_def)
  have d: "utf8_decode [0xFF, 0xFE, 0x41] = None" by simp
  have t: "typed ?w = Some lab_example" by (simp add: example_world_def)
  have "resolved ?w = lab_text_input ?w
      \<and> lab_text_input ?w = (case typed ?w of None \<Rightarrow> [] | Some t \<Rightarrow> t)
      \<and> (serving ?w \<longrightarrow> StWarning unreadable_msg \<in> set (app plain_table ?w))"
    using undecodable_upload [OF u d, of plain_table] by blast
  then have "resolved ?w = lab_example \<and> StWarning unreadable_msg \<in> set (app plain_table ?w)"
    using t example_world_serving [of "Some [0xFF, 0xFE, 0x41]" "Some lab_example"] by simp
  with d show ?thesis by blast
qed

section \<open>The claims about the run\<close>

lemma prompts_sent_empty: "prompts_sent tr = [] \<longleftrightarrow> (\<forall>p. GenerateContent p \<notin> set tr)"
  by (induction tr rule: prompts_sent.induct) auto

lemma safe_generate_calls: "prompts_sent (snd (safe_generate w p)) \<noteq> []"
proof -
  have "Suc (length (sleeps (snd (safe_generate w p))))
      = length (prompts_sent (snd (safe_generate w p)))"
    unfolding safe_generate_def by (rule retry_call_counts) (simp add: generate_once_trace)
  then show ?thesis by auto
qed

lemma example_world_clicked: "clicked (example_world up ty f)"
  by (simp add: example_world_def)

lemma strip_blank_example: "strip [32, 32, 10] = []"
  by (simp add: strip_def lstrip_def rstrip_def py_isspace_def)

text \<open>
  C5.  When the submitted text is empty after stripping whitespace, which is the case
  exactly when the upload text and the text area are both empty or whitespace only, the
  run sends no prompt to the model; and if the button was clicked, the run shows the
  warning that asks for input and stops there.
\<close>

theorem blank_submission:
  "strip (resolved w) = [] \<Longrightarrow>
   strip (file_text w) = [] \<and> strip (lab_text_input w) = []
   \<and> prompts_sent (app tbl w) = []
   \<and> (serving w \<and> clicked w \<longrightarrow>
        StWarning no_input_msg \<in> set (app tbl w) \<and> last (app tbl w) = StWarning no_input_msg)"
proof (intro conjI impI)
  assume b: "strip (resolved w) = []"
  show "strip (file_text w) = []" using b by (simp add: resolved_blank_iff)
  show "strip (lab_text_input w) = []" using b by (simp add: resolved_blank_iff)
  show "prompts_sent (app tbl w) = []"
    using b app_prompts [of _ tbl w] by (simp add: prompts_sent_empty) blast
  assume s: "serving w \<and> clicked w"
  show "StWarning no_input_msg \<in> set (app tbl w)" using b s by (simp add: app_cases)
  show "last (app tbl w) = StWarning no_input_msg" using b s by (simp add: app_cases)
qed

theorem blank_submission_witness:
  "strip (resolved (example_world None (Some [32, 32, 10]) answers)) = []
   \<and> prompts_sent (app plain_table (example_world None (Some [32, 32, 10]) answers)) = []
   \<and> last (app plain_table (example_world None (Some [32, 32, 10]) answers))
       = StWarning no_input_msg"
proof -
  let ?w = "example_world None (Some [32, 32, 10]) answers"
  have b: "strip (resolved ?w) = []"
    by (simp add: example_world_typed strip_blank_example)
  show ?thesis
    using blank_submission [OF b, of plain_table] b
    by (simp add: example_world_serving example_world_clicked)
qed

text \<open>
  C8.  When the environment has no API key (or an empty one), the run shows the error
  about the missing key and nothing else: the SDK is never configured, nothing of the page
  is rendered, and no prompt is sent.
\<close>

theorem missing_key_halts:
  "getenv_key w = None \<or> getenv_key w = Some [] \<Longrightarrow>
   app tbl w = [StError missing_key_msg]
   \<and> (\<forall>k. Configure k \<notin> set (app tbl w))
   \<and> prompts_sent (app tbl w) = []"
  by (auto simp: app_def)

theorem missing_key_halts_witness:
  "getenv_key ((example_world None (Some lab_example) answers)\<lparr>getenv_key := None\<rparr>) = None
   \<and> app plain_table ((example_world None (Some lab_example) answers)\<lparr>getenv_key := None\<rparr>)
      = [StError missing_key_msg]"
proof -
  let ?w = "(example_world None (Some lab_example) answers)\<lparr>getenv_key := None\<rparr>"
  have k: "getenv_key ?w = None \<or> getenv_key ?w = Some []" by simp
  show ?thesis using missing_key_halts [OF k, of plain_table] by simp
qed

section \<open>Facts about the example runs\<close>

lemma hex_example: "hex 0x7f3a5c1d2e80 = ascii ''7f3a5c1d2e80''"
  by (simp add: hex.simps hex_digit_def ascii_def)

lemma str_retry_example:
  "str_exn (RetryError quota_exceeded 0x7f3a5c1d2e80) =
     ascii ''RetryError[<Future at 0x7f3a5c1d2e80 state=finished raised ResourceExhausted>]''"
  by (simp add: future_repr_def hex_example quota_exceeded_def) (simp add: ascii_def)

lemma not_rate_limited_example:
  "\<not> rate_limited tbl (RetryError quota_exceeded 0x7f3a5c1d2e80)"
  unfolding rate_limited_def str_retry_example
  by (simp add: ascii_def py_lower_def ascii_lower_def)

lemma oops_example:
  "oops_msg (RetryError quota_exceeded 0x7f3a5c1d2e80) =
     [128531] @ ascii '' Oops, something went wrong: ''
     @ ascii ''RetryError[<Future at 0x7f3a5c1d2e80 state=finished raised ResourceExhausted>]''"
  unfolding oops_msg_def str_retry_example by (rule refl)

lemma quota_word_in_message:
  "py_in (ascii ''quota'') (py_lower tbl (str_exn quota_exceeded))"
  by (simp add: quota_exceeded_def ascii_def py_lower_def ascii_lower_def)

lemma retry_error_hides_message:
  "rate_limited tbl (RetryError (Exn c m) a) = rate_limited tbl (RetryError (Exn c m') a)
   \<and> oops_msg (RetryError (Exn c m) a) = oops_msg (RetryError (Exn c m') a)"
  by (simp add: rate_limited_def oops_msg_def future_repr_def)

lemma example_world_always_fails:
  "safe_generate (example_world up ty always_fails) p =
     (Inl (RetryError quota_exceeded 0x7f3a5c1d2e80),
      [GenerateContent p, Sleep 12, GenerateContent p, Sleep 12, GenerateContent p, Sleep 12,
       GenerateContent p])"
proof -
  have "\<forall>i. 1 \<le> i \<and> i \<le> 4 \<longrightarrow>
      respond (example_world up ty always_fails) p i = Inl quota_exceeded
      \<and> is_exception quota_exceeded"
    by (simp add: example_world_def always_fails_def quota_exceeded_def)
  from safe_generate_exhausted [where e = "\<lambda>i. quota_exceeded", OF this]
  show ?thesis by (simp add: wait_first_attempts example_world_def)
qed

lemma example_world_answers:
  "safe_generate (example_world up ty answers) p =
     (Inr (ascii ''Your A1C is elevated...''), [GenerateContent p])"
proof -
  have s: "strip (ascii ''Your A1C is elevated...'') = ascii ''Your A1C is elevated...''"
    by (simp add: strip_def lstrip_def rstrip_def ascii_def py_isspace_def)
  have "respond (example_world up ty answers) p 1 = Inr (ascii ''Your A1C is elevated...'')"
    by (simp add: example_world_def answers_def)
  from safe_generate_first [OF this] show ?thesis by (simp only: s)
qed

lemma example_world_caught:
  "\<not> escapes (example_world up ty always_fails)" "\<not> escapes (example_world up ty answers)"
  by (simp_all add: escapes_def example_world_always_fails example_world_answers)

lemma example_world_page:
  "app tbl (example_world None (Some lab_example) f) =
     [Configure (ascii ''secret''), Render PageConfig, Render Title, Render Markdown,
      Render FileUploader, Render (TextArea []), Render Button]
     @ explain tbl (example_world None (Some lab_example) f)
     @ (if escapes (example_world None (Some lab_example) f) then [] else [Render SidebarInfo])"
proof -
  let ?w = "example_world None (Some lab_example) f"
  have "getenv_key ?w = Some (ascii ''secret'')" "uploaded_file ?w = None"
    by (simp_all add: example_world_def)
  then show ?thesis
    by (simp add: app_cases example_world_serving example_world_clicked example_world_typed
        lab_example_not_blank file_text_none file_upload_def)
qed

section \<open>The claim about the classification of failures\<close>

text \<open>
  C4 says that when generation fails for good with an error whose message has a rate or
  quota keyword, the quota message is shown, and that otherwise the generic message
  carries the raw error.  The handler of line 104 never sees that error: what reaches it is
  the \<open>RetryError\<close> of the decorator, whose text holds the class name of the last
  exception and not its message.  In the run below every attempt fails with the quota
  error of the API, whose message contains ``quota''; the run shows the generic message,
  with the text of the \<open>RetryError\<close>, and never the quota message.
\<close>

theorem quota_failure_shown_as_generic:
  "py_in (ascii ''quota'') (py_lower tbl (str_exn quota_exceeded))
   \<and> app tbl (example_world None (Some lab_example) always_fails) =
       [Configure (ascii ''secret''), Render PageConfig, Render Title, Render Markdown,
        Render FileUploader, Render (TextArea []), Render Button, Render Spinner,
        GenerateContent (full_prompt lab_example), Sleep 12,
        GenerateContent (full_prompt lab_example), Sleep 12,
        GenerateContent (full_prompt lab_example), Sleep 12,
        GenerateContent (full_prompt lab_example),
        StError ([128531] @ ascii '' Oops, something went wrong: ''
                 @ ascii ''RetryError[<Future at 0x7f3a5c1d2e80 state=finished raised ResourceExhausted>]''),
        Render SidebarInfo]
   \<and> StError quota_msg \<notin> set (app tbl (example_world None (Some lab_example) always_fails))"
proof -
  let ?w = "example_world None (Some lab_example) always_fails"
  have run: "app tbl ?w =
       [Configure (ascii ''secret''), Render PageConfig, Render Title, Render Markdown,
        Render FileUploader, Render (TextArea []), Render Button, Render Spinner,
        GenerateContent (full_prompt lab_example), Sleep 12,
        GenerateContent (full_prompt lab_example), Sleep 12,
        GenerateContent (full_prompt lab_example), Sleep 12,
        GenerateContent (full_prompt lab_example),
        StError ([128531] @ ascii '' Oops, something went wrong: ''
                 @ ascii ''RetryError[<Future at 0x7f3a5c1d2e80 state=finished raised ResourceExhausted>]''),
        Render SidebarInfo]"
    by (simp add: example_world_page explain_def example_world_always_fails example_world_caught
        example_world_typed not_rate_limited_example oops_example)
  have "StError quota_msg \<notin> set (app tbl ?w)"
    unfolding run by (simp add: quota_msg_def)
  with run quota_word_in_message show ?thesis by blast
qed

section \<open>The claim about the prompt\<close>

text \<open>
  C2, as stated: the prompt sent to the model is the system instruction followed by
  exactly the lab text.  For the lab text of the example the prompt that is sent is not
  that concatenation.
\<close>

theorem prompt_without_framing_counterexample:
  "strip lab_example \<noteq> []
   \<and> prompts_sent (app plain_table (example_world None (Some lab_example) answers))
      = [full_prompt lab_example]
   \<and> full_prompt lab_example \<noteq> system_prompt @ lab_example"
proof -
  let ?w = "example_world None (Some lab_example) answers"
  have "prompts_sent (app plain_table ?w) = [full_prompt lab_example]"
    by (simp add: example_world_page explain_def example_world_answers example_world_typed
        example_world_caught)
  moreover have "full_prompt lab_example \<noteq> system_prompt @ lab_example"
    by (simp add: full_prompt_def lab_example_def ascii_def)
  ultimately show ?thesis using lab_example_not_blank by blast
qed

text \<open>
  C2, amended.  On a submission with a lab text that is not blank, every prompt sent to
  the model (and at least one is sent) is the system instruction, an empty line, the
  line ``Here is the lab result:'', exactly the submitted lab text, an empty line and
  the closing ``Explain and recommend.''.
\<close>

theorem outbound_prompt:
  "serving w \<Longrightarrow> clicked w \<Longrightarrow> strip (resolved w) \<noteq> [] \<Longrightarrow>
   prompts_sent (app tbl w) \<noteq> []
   \<and> set (prompts_sent (app tbl w)) =
       {system_prompt @ [10, 10] @ ascii ''Here is the lab result:'' @ [10] @ resolved w
        @ [10, 10] @ ascii ''Explain and recommend.''}"
proof -
  assume s: "serving w" and c: "clicked w" and n: "strip (resolved w) \<noteq> []"
  let ?p = "full_prompt (resolved w)"
  have sub: "set (prompts_sent (app tbl w)) \<subseteq> {?p}"
    using app_prompts [of _ tbl w] by (auto simp: prompts_sent_mem)
  have "prompts_sent (snd (safe_generate w ?p)) \<noteq> []" by (rule safe_generate_calls)
  then have ne: "prompts_sent (app tbl w) \<noteq> []"
    using s c n by (simp add: app_cases explain_def prompts_sent_append)
  then obtain q where q: "q \<in> set (prompts_sent (app tbl w))"
    by (cases "prompts_sent (app tbl w)") auto
  with sub have "q = ?p" by blast
  with q have "?p \<in> set (prompts_sent (app tbl w))" by simp
  with sub have "set (prompts_sent (app tbl w)) = {?p}" by blast
  with ne show ?thesis by (simp add: full_prompt_def)
qed

theorem outbound_prompt_witness:
  "set (prompts_sent (app plain_table (example_world None (Some lab_example) answers))) =
       {system_prompt @ [10, 10] @ ascii ''Here is the lab result:'' @ [10] @ lab_example
        @ [10, 10] @ ascii ''Explain and recommend.''}"
proof -
  let ?w = "example_world None (Some lab_example) answers"
  have s: "serving ?w" by (rule example_world_serving)
  have c: "clicked ?w" by (rule example_world_clicked)
  have n: "strip (resolved ?w) \<noteq> []" by (simp add: example_world_typed lab_example_not_blank)
  show ?thesis
    using outbound_prompt [OF s c n, of plain_table] by (simp add: example_world_typed)
qed

end
